theory Spec2Isabelle
  imports Main "HOL-Library.Sublist"
begin

section \<open>Record model\<close>

text \<open>
  The dataclass \<open>UpdateItem\<close> of \<open>sustainability_agent.py\<close> and
  \<open>sustainability_agent_enhanced.py\<close> (the two declarations are the same twelve
  fields). Python does not enforce the \<open>str\<close> annotations, so a field holds a
  \<open>str\<close> or \<open>None\<close>: \<open>Some s\<close> is the string \<open>s\<close>, \<open>None\<close> is Python's
  \<open>None\<close>. A \<open>str\<close> is modelled by its UTF-8 encoding, a string of bytes; a code
  point is a lead byte with the continuation bytes that follow it.
\<close>

type_synonym pystr = "string option"

record UpdateItem =
  source :: pystr
  title :: pystr
  link :: pystr
  date :: pystr
  summary :: pystr
  first_published :: pystr
  last_updated :: pystr
  compliance_deadline :: pystr
  significant_changes :: pystr
  impact_level :: pystr
  affected_sectors :: pystr
  jurisdiction :: pystr

text \<open>The natural key is the triple named by \<open>UNIQUE(source, title, link)\<close>.\<close>

type_synonym natural_key = "pystr \<times> pystr \<times> pystr"

definition natural_key :: "UpdateItem \<Rightarrow> natural_key" where
  "natural_key item = (source item, title item, link item)"

text \<open>
  The five columns declared \<open>NOT NULL\<close> are the required fields: a record is
  well formed when none of them is \<open>None\<close>.
\<close>

definition well_formed :: "UpdateItem \<Rightarrow> bool" where
  "well_formed item \<longleftrightarrow>
     source item \<noteq> None \<and> title item \<noteq> None \<and> link item \<noteq> None \<and>
     date item \<noteq> None \<and> summary item \<noteq> None"

section \<open>Store\<close>

text \<open>
  A row of the table \<open>updates\<close>. The basic schema has the id and five \<open>NOT NULL\<close>
  text columns; the enhanced schema adds seven nullable text columns.
\<close>

record basic_row =
  row_id :: nat
  row_source :: string
  row_title :: string
  row_link :: string
  row_date :: string
  row_summary :: string

record enhanced_row = basic_row +
  row_first_published :: pystr
  row_last_updated :: pystr
  row_compliance_deadline :: pystr
  row_significant_changes :: pystr
  row_impact_level :: pystr
  row_affected_sectors :: pystr
  row_jurisdiction :: pystr

text \<open>
  The state behind a connection: the rows of \<open>updates\<close> in insertion order, or
  \<open>None\<close> while the database file holds no such table (a file that
  \<open>sqlite3.connect\<close> has just created).
\<close>

type_synonym 'a table = "'a basic_row_scheme list"
type_synonym 'a database = "'a table option"

datatype sqlite_error = IntegrityError string | OperationalError string

definition row_key :: "'a basic_row_scheme \<Rightarrow> natural_key" where
  "row_key r = (Some (row_source r), Some (row_title r), Some (row_link r))"

definition table_keys :: "'a table \<Rightarrow> natural_key set" where
  "table_keys t = row_key ` set t"

text \<open>\<open>CREATE TABLE IF NOT EXISTS updates (...)\<close>: an existing table is left as it is.\<close>

definition initialise_db :: "'a database \<Rightarrow> 'a database" where
  "initialise_db db = (case db of None \<Rightarrow> Some [] | Some t \<Rightarrow> Some t)"

text \<open>\<open>INTEGER PRIMARY KEY AUTOINCREMENT\<close>: one more than the largest id in use.\<close>

definition next_id :: "'a table \<Rightarrow> nat" where
  "next_id t = Suc (foldr max (map row_id t) 0)"

text \<open>
  One \<open>cur.execute("INSERT INTO updates ...")\<close>. The parameter \<open>cols\<close> gives the
  columns beyond the basic five. SQLite raises \<open>IntegrityError\<close> for a \<open>None\<close>
  bound to a \<open>NOT NULL\<close> column and for a violated \<open>UNIQUE\<close> constraint; text
  columns compare with the \<open>BINARY\<close> collation, which is equality of strings.
\<close>

definition execute_insert ::
  "(UpdateItem \<Rightarrow> 'a) \<Rightarrow> 'a database \<Rightarrow> UpdateItem \<Rightarrow> sqlite_error + 'a database" where
  "execute_insert cols db item =
     (case db of
        None \<Rightarrow> Inl (OperationalError ''no such table: updates'')
      | Some t \<Rightarrow>
          (case (source item, title item, link item, date item, summary item) of
             (Some s, Some ti, Some l, Some d, Some su) \<Rightarrow>
               if (Some s, Some ti, Some l) \<in> table_keys t
               then Inl (IntegrityError
                 ''UNIQUE constraint failed: updates.source, updates.title, updates.link'')
               else Inr (Some (t @
                 [\<lparr>row_id = next_id t, row_source = s, row_title = ti, row_link = l,
                   row_date = d, row_summary = su, \<dots> = cols item\<rparr>]))
           | _ \<Rightarrow> Inl (IntegrityError ''NOT NULL constraint failed'')))"

text \<open>
  The loop of \<open>store_updates\<close>, the same in both files: a successful insert is
  committed and the item appended to \<open>new_items\<close>; \<open>except sqlite3.IntegrityError\<close>
  continues with the next item; any other error leaves the function.
\<close>

fun store_loop ::
  "(UpdateItem \<Rightarrow> 'a) \<Rightarrow> 'a database \<Rightarrow> UpdateItem list \<Rightarrow> UpdateItem list
     \<Rightarrow> sqlite_error + ('a database \<times> UpdateItem list)" where
  "store_loop cols db [] new_items = Inr (db, new_items)"
| "store_loop cols db (item # items) new_items =
     (case execute_insert cols db item of
        Inr db' \<Rightarrow> store_loop cols db' items (new_items @ [item])
      | Inl e \<Rightarrow>
          (case e of
             IntegrityError m \<Rightarrow> store_loop cols db items new_items
           | OperationalError m \<Rightarrow> Inl e))"

definition basic_columns :: "UpdateItem \<Rightarrow> unit" where
  "basic_columns item = ()"

definition enhanced_columns ::
  "UpdateItem \<Rightarrow>
     \<lparr>row_first_published :: pystr, row_last_updated :: pystr,
       row_compliance_deadline :: pystr, row_significant_changes :: pystr,
       row_impact_level :: pystr, row_affected_sectors :: pystr,
       row_jurisdiction :: pystr\<rparr>" where
  "enhanced_columns item =
     enhanced_row.fields (first_published item) (last_updated item)
       (compliance_deadline item) (significant_changes item) (impact_level item)
       (affected_sectors item) (jurisdiction item)"

text \<open>\<open>store_updates\<close> of \<open>sustainability_agent.py\<close> (five columns).\<close>

definition store_updates ::
  "basic_row list option \<Rightarrow> UpdateItem list
     \<Rightarrow> sqlite_error + (basic_row list option \<times> UpdateItem list)" where
  "store_updates conn items = store_loop basic_columns conn items []"

text \<open>\<open>store_updates\<close> of \<open>sustainability_agent_enhanced.py\<close> (twelve columns).\<close>

definition store_updates_enhanced ::
  "enhanced_row list option \<Rightarrow> UpdateItem list
     \<Rightarrow> sqlite_error + (enhanced_row list option \<times> UpdateItem list)" where
  "store_updates_enhanced conn items = store_loop enhanced_columns conn items []"

text \<open>
  The row that a successful insert of a well-formed item appends (the bound
  parameters of the \<open>INSERT\<close> statement).
\<close>

definition bound_row ::
  "(UpdateItem \<Rightarrow> 'a) \<Rightarrow> 'a table \<Rightarrow> UpdateItem \<Rightarrow> 'a basic_row_scheme" where
  "bound_row cols t item =
     \<lparr>row_id = next_id t, row_source = the (source item),
       row_title = the (title item), row_link = the (link item),
       row_date = the (date item), row_summary = the (summary item),
       \<dots> = cols item\<rparr>"

text \<open>
  The natural keys stored at the time the loop reaches \<open>items ! i\<close>: the keys of
  the table that the first \<open>i\<close> iterations leave behind.
\<close>

definition stored_keys_before ::
  "(UpdateItem \<Rightarrow> 'a) \<Rightarrow> 'a table \<Rightarrow> UpdateItem list \<Rightarrow> nat \<Rightarrow> natural_key set" where
  "stored_keys_before cols t items i =
     (case store_loop cols (Some t) (take i items) [] of
        Inr (Some t', new_items) \<Rightarrow> table_keys t'
      | _ \<Rightarrow> {})"

text \<open>No two stored rows share the natural key.\<close>

definition unique_keys :: "'a database \<Rightarrow> bool" where
  "unique_keys db = (case db of None \<Rightarrow> True | Some t \<Rightarrow> distinct (map row_key t))"

text \<open>
  A history of calls on one database file. \<open>run_ops\<close> returns the database the
  history leaves and the error that ended it, if one did (\<open>store_updates\<close> on a
  file without the table raises \<open>OperationalError\<close> before anything is written).
\<close>

datatype store_op = InitialiseDb | StoreUpdates "UpdateItem list"

fun run_ops ::
  "(UpdateItem \<Rightarrow> 'a) \<Rightarrow> 'a database \<Rightarrow> store_op list
     \<Rightarrow> 'a database \<times> sqlite_error option" where
  "run_ops cols db [] = (db, None)"
| "run_ops cols db (InitialiseDb # ops) = run_ops cols (initialise_db db) ops"
| "run_ops cols db (StoreUpdates items # ops) =
     (case store_loop cols db items [] of
        Inl e \<Rightarrow> (db, Some e)
      | Inr (db', new_items) \<Rightarrow> run_ops cols db' ops)"

section \<open>Feed aggregator\<close>

text \<open>
  Exceptions that a call can raise. \<open>except Exception\<close> catches the instances of
  \<open>Exception\<close>; \<open>KeyboardInterrupt\<close> and \<open>SystemExit\<close> derive from
  \<open>BaseException\<close> only and pass through it.
\<close>

datatype py_exception =
    ValueError string
  | RuntimeError string
  | OSError string
  | SMTPException string
  | KeyboardInterrupt
  | SystemExit string

fun is_Exception :: "py_exception \<Rightarrow> bool" where
  "is_Exception KeyboardInterrupt = False"
| "is_Exception (SystemExit m) = False"
| "is_Exception e = True"

fun exception_str :: "py_exception \<Rightarrow> string" where
  "exception_str (ValueError m) = m"
| "exception_str (RuntimeError m) = m"
| "exception_str (OSError m) = m"
| "exception_str (SMTPException m) = m"
| "exception_str KeyboardInterrupt = []"
| "exception_str (SystemExit m) = m"

text \<open>
  \<open>SOURCES\<close> maps a source name to a zero-argument parser; a dict iterates in
  insertion order, so the registry is the list of its entries. A parser is given
  by what its call does: it raises (\<open>Inl\<close>) or returns a list of items (\<open>Inr\<close>).
\<close>

type_synonym parser = "py_exception + UpdateItem list"

text \<open>
  The loop of \<open>gather_updates\<close> (the same in both files), with the lines it
  prints. An exception that \<open>except Exception\<close> does not catch leaves the function.
\<close>

fun gather_loop ::
  "(string \<times> parser) list \<Rightarrow> UpdateItem list \<Rightarrow> string list
     \<Rightarrow> py_exception + (UpdateItem list \<times> string list)" where
  "gather_loop [] collected printed = Inr (collected, printed)"
| "gather_loop ((name, parser) # sources) collected printed =
     (case parser of
        Inr items \<Rightarrow> gather_loop sources (collected @ items) printed
      | Inl e \<Rightarrow>
          if is_Exception e
          then gather_loop sources collected
                 (printed @ [''Error scraping '' @ name @ '': '' @ exception_str e])
          else Inl e)"

definition gather_updates ::
  "(string \<times> parser) list \<Rightarrow> py_exception + (UpdateItem list \<times> string list)" where
  "gather_updates SOURCES = gather_loop SOURCES [] []"

text \<open>What a parser contributes: its output, or nothing when it raises.\<close>

definition contribution :: "parser \<Rightarrow> UpdateItem list" where
  "contribution parser = (case parser of Inr items \<Rightarrow> items | Inl e \<Rightarrow> [])"

text \<open>A parser whose call, if it fails, fails with an instance of \<open>Exception\<close>.\<close>

definition fails_with_Exception :: "parser \<Rightarrow> bool" where
  "fails_with_Exception parser =
     (case parser of Inr items \<Rightarrow> True | Inl e \<Rightarrow> is_Exception e)"

section \<open>String operations of the renderers\<close>

text \<open>\<open>s.replace(c, new)\<close> for a one-character \<open>c\<close>.\<close>

definition replace_char :: "char \<Rightarrow> string \<Rightarrow> string \<Rightarrow> string" where
  "replace_char c new s = concat (map (\<lambda>x. if x = c then new else [x]) s)"

text \<open>
  The chain \<open>.replace("&", "&amp;").replace("<", "&lt;").replace(">", "&gt;")\<close>
  that the renderers apply to the fields they escape.
\<close>

definition html_escape :: "string \<Rightarrow> string" where
  "html_escape s =
     replace_char (CHR ''>'') ''&gt;''
       (replace_char (CHR ''<'') ''&lt;'' (replace_char (CHR ''&'') ''&amp;'' s))"

text \<open>\<open>"\n".join(lines)\<close>.\<close>

fun join_lines :: "string list \<Rightarrow> string" where
  "join_lines [] = []"
| "join_lines [l] = l"
| "join_lines (l # ls) = l @ [CHR 0x0A] @ join_lines ls"

text \<open>
  The code points of a string: each byte that is not a continuation byte
  (\<open>10xxxxxx\<close>) starts a new one. \<open>len(s)\<close> counts them.
\<close>

fun is_continuation :: "char \<Rightarrow> bool" where
  "is_continuation (Char b0 b1 b2 b3 b4 b5 b6 b7) = (b7 \<and> \<not> b6)"

fun group_code_points :: "string \<Rightarrow> string \<Rightarrow> string list" where
  "group_code_points [] cur = (if cur = [] then [] else [cur])"
| "group_code_points (c # cs) cur =
     (if is_continuation c \<and> cur \<noteq> [] then group_code_points cs (cur @ [c])
      else if cur = [] then group_code_points cs [c]
      else cur # group_code_points cs [c])"

definition code_points :: "string \<Rightarrow> string list" where
  "code_points s = group_code_points s []"

definition py_len :: "string \<Rightarrow> nat" where
  "py_len s = length (code_points s)"

text \<open>
  The whitespace of \<open>str.split()\<close>, \<open>str.strip()\<close> and \<open>int()\<close>: U+0009 to
  U+000D, U+001C to U+0020, U+0085, U+00A0, U+1680, U+2000 to U+200A, U+2028,
  U+2029, U+202F, U+205F and U+3000, each as its UTF-8 bytes.
\<close>

definition whitespace_code_points :: "string list" where
  "whitespace_code_points =
     [[CHR 0x09], [CHR 0x0A], [CHR 0x0B], [CHR 0x0C], [CHR 0x0D],
      [CHR 0x1C], [CHR 0x1D], [CHR 0x1E], [CHR 0x1F], [CHR 0x20],
      [CHR 0xC2, CHR 0x85], [CHR 0xC2, CHR 0xA0],
      [CHR 0xE1, CHR 0x9A, CHR 0x80],
      [CHR 0xE2, CHR 0x80, CHR 0x80], [CHR 0xE2, CHR 0x80, CHR 0x81],
      [CHR 0xE2, CHR 0x80, CHR 0x82], [CHR 0xE2, CHR 0x80, CHR 0x83],
      [CHR 0xE2, CHR 0x80, CHR 0x84], [CHR 0xE2, CHR 0x80, CHR 0x85],
      [CHR 0xE2, CHR 0x80, CHR 0x86], [CHR 0xE2, CHR 0x80, CHR 0x87],
      [CHR 0xE2, CHR 0x80, CHR 0x88], [CHR 0xE2, CHR 0x80, CHR 0x89],
      [CHR 0xE2, CHR 0x80, CHR 0x8A],
      [CHR 0xE2, CHR 0x80, CHR 0xA8], [CHR 0xE2, CHR 0x80, CHR 0xA9],
      [CHR 0xE2, CHR 0x80, CHR 0xAF],
      [CHR 0xE2, CHR 0x81, CHR 0x9F],
      [CHR 0xE3, CHR 0x80, CHR 0x80]]"

definition is_space :: "string \<Rightarrow> bool" where
  "is_space cp \<longleftrightarrow> cp \<in> set whitespace_code_points"

fun split_ws :: "string list \<Rightarrow> string \<Rightarrow> string list" where
  "split_ws [] w = (if w = [] then [] else [w])"
| "split_ws (cp # cps) w =
     (if is_space cp then (if w = [] then split_ws cps [] else w # split_ws cps [])
      else split_ws cps (w @ cp))"

definition py_split :: "string \<Rightarrow> string list" where
  "py_split s = split_ws (code_points s) []"

definition strip_code_points :: "string list \<Rightarrow> string list" where
  "strip_code_points cps = rev (dropWhile is_space (rev (dropWhile is_space cps)))"

definition py_strip :: "string \<Rightarrow> string" where
  "py_strip s = concat (strip_code_points (code_points s))"

text \<open>\<open>s.split(c)\<close> for a one-character separator.\<close>

fun split_on :: "char \<Rightarrow> string \<Rightarrow> string \<Rightarrow> string list" where
  "split_on c [] w = [w]"
| "split_on c (x # xs) w =
     (if x = c then w # split_on c xs [] else split_on c xs (w @ [x]))"

text \<open>Substring test (\<open>sub in s\<close>) and \<open>str.lower()\<close> on ASCII letters.\<close>

fun starts_with :: "string \<Rightarrow> string \<Rightarrow> bool" where
  "starts_with [] s = True"
| "starts_with (p # ps) [] = False"
| "starts_with (p # ps) (c # cs) = (p = c \<and> starts_with ps cs)"

fun contains :: "string \<Rightarrow> string \<Rightarrow> bool" where
  "contains sub [] = (sub = [])"
| "contains sub (c # cs) = (starts_with sub (c # cs) \<or> contains sub cs)"

text \<open>
  An upper-case ASCII letter has the bits \<open>010xxxxx\<close> with \<open>xxxxx\<close> from 1 to 26;
  its lower-case letter has bit 5 set (code point plus 32). Every other
  character is left as it is.
\<close>

fun lower_char :: "char \<Rightarrow> char" where
  "lower_char (Char b0 b1 b2 b3 b4 b5 b6 b7) =
     (if \<not> b7 \<and> b6 \<and> \<not> b5 \<and> (b0 \<or> b1 \<or> b2 \<or> b3 \<or> b4) \<and>
         \<not> (b4 \<and> b3 \<and> (b2 \<or> (b1 \<and> b0)))
      then Char b0 b1 b2 b3 b4 True b6 b7
      else Char b0 b1 b2 b3 b4 b5 b6 b7)"

fun contains_any :: "string list \<Rightarrow> string \<Rightarrow> bool" where
  "contains_any [] s = False"
| "contains_any (phrase # phrases) s = (contains phrase s \<or> contains_any phrases s)"

section \<open>Digest renderers\<close>

text \<open>
  A row as \<open>fetchall()\<close> returns it for
  \<open>SELECT source, title, link, date, summary FROM updates ORDER BY ...\<close>.
  The renderers are functions of the fetched rows and of the formatted clock
  reading \<open>generated\<close>; they return the text that the source writes or returns.
\<close>

type_synonym fetched_row = "string \<times> string \<times> string \<times> string \<times> string"

text \<open>
  \<open>generate_dashboard\<close> of \<open>sustainability_agent.py\<close>: the second definition,
  which replaces the first when the module is loaded.
\<close>

definition dashboard_style :: string where
  "dashboard_style =
     ''  <style>'' @
     ''body{font-family:Arial, sans-serif;line-height:1.5;margin:40px;}'' @
     ''h1,h2{color:#2a5d84;}'' @
     ''table{width:100%;border-collapse:collapse;}'' @
     ''th,td{padding:8px 12px;border-bottom:1px solid #ddd;}'' @
     ''tr:hover{background-color:#f1f1f1;}'' @
     ''</style>''"

fun dashboard_rows ::
  "fetched_row list \<Rightarrow> string option \<Rightarrow> string list \<Rightarrow> string list" where
  "dashboard_rows [] current_source lines = lines"
| "dashboard_rows ((src, ttl, lnk, dt, summ) # rows) current_source lines =
     (let lines1 =
            (if Some src \<noteq> current_source
             then (if current_source \<noteq> None then lines @ [''</tbody></table>''] else lines) @
                  [''<h2>'' @ src @ ''</h2>'',
                   ''<table><thead><tr><th>Date</th><th>Title</th>'' @
                   ''<th>Description</th></tr></thead><tbody>'']
             else lines);
          safe_summary = html_escape summ
      in dashboard_rows rows (Some src)
           (lines1 @
            [''<tr><td>'' @ dt @ ''</td>'' @
             ''<td><a href='' @ [CHR 0x27] @ lnk @ [CHR 0x27] @
             '' target='_blank'>'' @ ttl @ ''</a></td>'' @
             ''<td>'' @ safe_summary @ ''</td></tr>'']))"

definition dashboard_lines :: "string \<Rightarrow> fetched_row list \<Rightarrow> string list" where
  "dashboard_lines generated rows =
     dashboard_rows rows None
       [''<!DOCTYPE html>'',
        ''<html lang='en'>'',
        ''<head>'',
        ''  <meta charset='utf-8'>'',
        ''  <title>Sustainability Regulation Updates</title>'',
        dashboard_style,
        ''</head>'',
        ''<body>'',
        ''  <h1>Sustainability Regulatory Updates</h1>'',
        ''  <p>Generated on '' @ generated @ ''</p>'']
     @ (if rows \<noteq> [] then [''</tbody></table>''] else [])
     @ [''</body>'', ''</html>'']"

definition generate_dashboard :: "string \<Rightarrow> fetched_row list \<Rightarrow> string" where
  "generate_dashboard generated rows = join_lines (dashboard_lines generated rows)"

text \<open>
  The block by which \<open>generate_professional_dashboard\<close>
  (\<open>sustainability_agent_enhanced.py\<close>) and \<open>generate_professional_html\<close>
  (\<open>generate_email_content_enhanced.py\<close>) render the column
  \<open>affected_sectors\<close> of a row: the text that the block appends to \<open>html\<close>.
  The two differ in the names of two classes only.
\<close>

definition sector_tags :: "string \<Rightarrow> string" where
  \<open>sector_tags sectors_text =
     concat (map (\<lambda>s. ''<span class="sector-tag">'' @ py_strip s @ ''</span>'')
       (split_on (CHR 0x2C) sectors_text []))\<close>

definition dashboard_sectors_block :: "pystr \<Rightarrow> string" where
  \<open>dashboard_sectors_block sectors_column =
     (case sectors_column of
        None \<Rightarrow> []
      | Some a \<Rightarrow>
          if a = [] then []
          else [CHR 0x0A] @
            ''                <div class="update-sectors">'' @ [CHR 0x0A] @
            ''                    <div class="meta-label">Affected Sectors</div>'' @ [CHR 0x0A] @
            ''                    <div class="sectors-list">'' @ [CHR 0x0A] @
            sector_tags a @ [CHR 0x0A] @
            ''                    </div>'' @ [CHR 0x0A] @
            ''                </div>'' @ [CHR 0x0A])\<close>

definition email_sectors_block :: "pystr \<Rightarrow> string" where
  \<open>email_sectors_block sectors_column =
     (case sectors_column of
        None \<Rightarrow> []
      | Some a \<Rightarrow>
          if a = [] then []
          else [CHR 0x0A] @
            ''                <div class="sectors-box">'' @ [CHR 0x0A] @
            ''                    <div class="metadata-label">Affected Sectors</div>'' @ [CHR 0x0A] @
            ''                    <div class="sectors-list">'' @ [CHR 0x0A] @
            sector_tags a @ [CHR 0x0A] @
            ''                    </div>'' @ [CHR 0x0A] @
            ''                </div>'' @ [CHR 0x0A])\<close>

text \<open>
  The lines that \<open>generate_html_email\<close> (\<open>generate_email_content.py\<close>) appends
  for one fetched row. The calendar sign and the arrow are given as their UTF-8
  bytes.
\<close>

definition html_email_item :: "fetched_row \<Rightarrow> string list" where
  \<open>html_email_item row =
     (case row of (src, ttl, lnk, dt, summ) \<Rightarrow>
        let safe_title = html_escape ttl;
            safe_summary = html_escape summ
        in [''<div class="update-item">'',
            ''<div class="update-title">'' @ safe_title @ ''</div>'',
            ''<div class="update-meta">'' @ [CHR 0xF0, CHR 0x9F, CHR 0x93, CHR 0x85] @
              '' '' @ dt @ ''</div>'',
            ''<div class="update-summary">'' @ safe_summary @ ''</div>'',
            ''<a href="'' @ lnk @ ''" class="update-link" target="_blank">Read More '' @
              [CHR 0xE2, CHR 0x86, CHR 0x92] @ ''</a>'',
            ''</div>''])\<close>

text \<open>
  \<open>generate_plain_text_email\<close> of \<open>generate_email_content.py\<close>. The inner loop
  wraps the words of the summary at 80 columns, counted in code points.
\<close>

fun wrap_words :: "string list \<Rightarrow> string \<Rightarrow> string list \<Rightarrow> string list \<times> string" where
  "wrap_words [] line_buffer lines = (lines, line_buffer)"
| "wrap_words (word # words) line_buffer lines =
     (if py_len line_buffer + py_len word + 1 > 80
      then wrap_words words (''   '' @ word) (lines @ [line_buffer])
      else wrap_words words
             (line_buffer @ (if line_buffer \<noteq> ''   '' then '' '' else []) @ word) lines)"

text \<open>The clipboard sign that starts a title line, as its UTF-8 bytes.\<close>

definition clipboard_sign :: string where
  "clipboard_sign = [CHR 0xF0, CHR 0x9F, CHR 0x93, CHR 0x8B]"

fun plain_text_rows ::
  "fetched_row list \<Rightarrow> string option \<Rightarrow> string list \<Rightarrow> string list" where
  "plain_text_rows [] current_source lines = lines"
| "plain_text_rows ((src, ttl, lnk, dt, summ) # rows) current_source lines =
     (let lines1 =
            (if Some src \<noteq> current_source
             then (if current_source \<noteq> None then lines @ [[]] else lines) @
                  [replicate 80 (CHR ''-''), ''SOURCE: '' @ src, replicate 80 (CHR ''-''), []]
             else lines);
          lines2 = lines1 @
            [clipboard_sign @ '' '' @ ttl, ''   Date: '' @ dt, ''   Link: '' @ lnk, []];
          (lines3, line_buffer) = wrap_words (py_split summ) ''   '' lines2;
          lines4 = (if py_strip line_buffer \<noteq> [] then lines3 @ [line_buffer] else lines3)
      in plain_text_rows rows (Some src) (lines4 @ [[]]))"

definition plain_text_lines :: "string \<Rightarrow> fetched_row list \<Rightarrow> string list" where
  "plain_text_lines generated rows =
     plain_text_rows rows None
       [replicate 80 (CHR ''=''),
        ''SUSTAINABILITY REGULATORY UPDATES'',
        replicate 80 (CHR ''=''),
        ''Generated: '' @ generated,
        []]
     @ [replicate 80 (CHR ''=''), ''End of Report'', replicate 80 (CHR ''='')]"

definition generate_plain_text_email :: "string \<Rightarrow> fetched_row list \<Rightarrow> string" where
  "generate_plain_text_email generated rows = join_lines (plain_text_lines generated rows)"

text \<open>
  Phrases by which a report would say that there is nothing to report, looked
  for without regard to letter case.
\<close>

definition no_updates_phrases :: "string list" where
  "no_updates_phrases =
     [''no update'', ''no new'', ''no regulat'', ''no record'', ''no item'',
      ''no result'', ''no data'', ''no entr'', ''none'', ''nothing'', ''empty'',
      ''not found'', ''0 update'']"

definition has_no_updates_indicator :: "string \<Rightarrow> bool" where
  "has_no_updates_indicator out = contains_any no_updates_phrases (map lower_char out)"

section \<open>Impact statistics\<close>

text \<open>
  The counts that \<open>generate_professional_dashboard\<close>,
  \<open>generate_professional_plain_text\<close>, \<open>generate_professional_html\<close> and
  \<open>generate_interactive_dashboard\<close> compute from the fetched rows of the enhanced
  table; \<open>r[9]\<close> is the column \<open>impact_level\<close>.
\<close>

definition total_updates :: "enhanced_row list \<Rightarrow> nat" where
  "total_updates rows = length rows"

definition high_impact :: "enhanced_row list \<Rightarrow> nat" where
  "high_impact rows = length (filter (\<lambda>r. row_impact_level r = Some ''High'') rows)"

definition medium_impact :: "enhanced_row list \<Rightarrow> nat" where
  "medium_impact rows = length (filter (\<lambda>r. row_impact_level r = Some ''Medium'') rows)"

definition low_impact :: "enhanced_row list \<Rightarrow> nat" where
  "low_impact rows = length (filter (\<lambda>r. row_impact_level r = Some ''Low'') rows)"

section \<open>Notifier\<close>

text \<open>
  \<open>int(s)\<close> on a string, base 10: surrounding whitespace is stripped, a sign may
  come first, and single underscores may separate digits. A digit is an ASCII
  digit or any other Unicode decimal digit; \<open>unicode_decimal\<close> stands for the
  table of the Unicode database that gives the value (0 to 9) of a code point
  outside ASCII, or \<open>None\<close> when it is not a decimal digit. The result \<open>None\<close>
  stands for \<open>ValueError\<close>. (The limit that recent interpreters put on the
  number of digits is not modelled.)
\<close>

type_synonym decimal_table = "string \<Rightarrow> nat option"

fun is_ascii :: "char \<Rightarrow> bool" where
  "is_ascii (Char b0 b1 b2 b3 b4 b5 b6 b7) = (\<not> b7)"

definition is_digit :: "char \<Rightarrow> bool" where
  "is_digit c \<longleftrightarrow> (let n = (of_char c :: nat) in 48 \<le> n \<and> n \<le> 57)"

definition digit_value :: "char \<Rightarrow> int" where
  "digit_value c = int (of_char c) - 48"

definition decimal_digit :: "decimal_table \<Rightarrow> string \<Rightarrow> int option" where
  "decimal_digit unicode_decimal cp =
     (case cp of
        [c] \<Rightarrow>
          if is_ascii c then (if is_digit c then Some (digit_value c) else None)
          else map_option int (unicode_decimal cp)
      | _ \<Rightarrow> map_option int (unicode_decimal cp))"

fun parse_digits :: "decimal_table \<Rightarrow> string list \<Rightarrow> bool \<Rightarrow> int \<Rightarrow> int option" where
  "parse_digits unicode_decimal [] after_digit acc = (if after_digit then Some acc else None)"
| "parse_digits unicode_decimal (cp # cps) after_digit acc =
     (case decimal_digit unicode_decimal cp of
        Some d \<Rightarrow> parse_digits unicode_decimal cps True (acc * 10 + d)
      | None \<Rightarrow>
          if cp = ''_'' \<and> after_digit then parse_digits unicode_decimal cps False acc
          else None)"

definition py_int :: "decimal_table \<Rightarrow> string \<Rightarrow> int option" where
  "py_int unicode_decimal s =
     (case strip_code_points (code_points s) of
        [] \<Rightarrow> None
      | cp # cps \<Rightarrow>
          if cp = ''-'' then map_option uminus (parse_digits unicode_decimal cps False 0)
          else if cp = ''+'' then parse_digits unicode_decimal cps False 0
          else parse_digits unicode_decimal (cp # cps) False 0)"

text \<open>Truth value of \<open>os.environ.get(name)\<close>: set and not the empty string.\<close>

definition truthy :: "pystr \<Rightarrow> bool" where
  "truthy v = (case v of None \<Rightarrow> False | Some s \<Rightarrow> s \<noteq> [])"

text \<open>
  The message to send (\<open>message["From"]\<close>, \<open>message.as_string()\<close>) and the
  arguments that reach \<open>smtplib\<close>.
\<close>

record email_message =
  msg_from :: pystr
  msg_as_string :: string

record smtp_session =
  smtp_host :: string
  smtp_port :: int
  smtp_user :: string
  smtp_password :: string
  smtp_from :: pystr
  smtp_recipients :: "string list"
  smtp_payload :: string

text \<open>What \<open>send_email\<close> did: the session it opened, if any, and what it printed.\<close>

record send_report =
  attempted :: "smtp_session option"
  printed :: "string list"

text \<open>
  \<open>send_email\<close> (the same in both files). \<open>unicode_decimal\<close> is the table that
  \<open>int\<close> consults; \<open>environ\<close> is \<open>os.environ\<close>; \<open>smtp\<close>
  stands for the mail server: the exception that connecting, \<open>starttls\<close>,
  \<open>login\<close> or \<open>sendmail\<close> raises inside the block
  \<open>with smtplib.SMTP(host, port) as server: ...\<close>, or \<open>None\<close> when the message
  was sent.
\<close>

definition send_email ::
  "decimal_table \<Rightarrow> (string \<rightharpoonup> string) \<Rightarrow> (smtp_session \<Rightarrow> py_exception option)
     \<Rightarrow> email_message \<Rightarrow> py_exception + send_report" where
  "send_email unicode_decimal environ smtp message =
     (let host = environ ''SMTP_HOST'' in
      case py_int unicode_decimal
             (case environ ''SMTP_PORT'' of None \<Rightarrow> ''0'' | Some v \<Rightarrow> v) of
        None \<Rightarrow> Inl (ValueError ''invalid literal for int() with base 10'')
      | Some port \<Rightarrow>
         (let user = environ ''SMTP_USER'';
              password = environ ''SMTP_PASSWORD'';
              recipients = environ ''SMTP_TO''
          in if \<not> (truthy host \<and> port \<noteq> 0 \<and> truthy user \<and> truthy password \<and>
                    truthy recipients)
             then Inr \<lparr>attempted = None,
                       printed = [''SMTP credentials not fully configured; skipping email send.'']\<rparr>
             else
               (let session =
                      \<lparr>smtp_host = the host, smtp_port = port, smtp_user = the user,
                        smtp_password = the password, smtp_from = msg_from message,
                        smtp_recipients = split_on (CHR 0x2C) (the recipients) [],
                        smtp_payload = msg_as_string message\<rparr>
                in case smtp session of
                     None \<Rightarrow>
                       Inr \<lparr>attempted = Some session,
                            printed = [''Sent email to '' @ the recipients]\<rparr>
                   | Some e \<Rightarrow>
                       if is_Exception e
                       then Inr \<lparr>attempted = Some session,
                                 printed = [''Failed to send email: '' @ exception_str e]\<rparr>
                       else Inl e)))"

section \<open>Notions used to state the properties\<close>

text \<open>
  The records of the input whose natural key is not stored at the time of their
  insert, in the order of the input.
\<close>

definition records_not_yet_stored ::
  "(UpdateItem \<Rightarrow> 'a) \<Rightarrow> 'a table \<Rightarrow> UpdateItem list \<Rightarrow> UpdateItem list" where
  "records_not_yet_stored cols t items =
     map ((!) items)
       (filter (\<lambda>i. natural_key (items ! i) \<notin> stored_keys_before cols t items i)
          [0..<length items])"

text \<open>
  The same among the records that can be inserted: those with their five
  required fields.
\<close>

definition insertable_records_not_yet_stored ::
  "(UpdateItem \<Rightarrow> 'a) \<Rightarrow> 'a table \<Rightarrow> UpdateItem list \<Rightarrow> UpdateItem list" where
  "insertable_records_not_yet_stored cols t items =
     map ((!) items)
       (filter (\<lambda>i. well_formed (items ! i) \<and>
                  natural_key (items ! i) \<notin> stored_keys_before cols t items i)
          [0..<length items])"

text \<open>
  The constructor of the dataclass called with the five required fields: the
  other fields take their defaults.
\<close>

definition UpdateItem_init ::
  "string \<Rightarrow> string \<Rightarrow> string \<Rightarrow> string \<Rightarrow> string \<Rightarrow> UpdateItem" where
  "UpdateItem_init s t l d su =
     \<lparr>source = Some s, title = Some t, link = Some l, date = Some d, summary = Some su,
       first_published = Some [], last_updated = Some [], compliance_deadline = Some [],
       significant_changes = Some [], impact_level = Some ''Medium'',
       affected_sectors = Some [], jurisdiction = Some []\<rparr>"

text \<open>The line that \<open>gather_updates\<close> prints for a registry entry whose parser raises.\<close>

definition reported :: "string \<times> parser \<Rightarrow> string list" where
  "reported entry =
     (case snd entry of
        Inr items \<Rightarrow> []
      | Inl e \<Rightarrow> [''Error scraping '' @ fst entry @ '': '' @ exception_str e])"

text \<open>Two fetched rows of the enhanced table, the second with a misspelt level.\<close>

definition example_rows :: "enhanced_row list" where
  "example_rows =
     [\<lparr>row_id = 1, row_source = ''EU'', row_title = ''X'', row_link = ''http://a'',
        row_date = ''2025-01-01'', row_summary = ''s'',
        row_first_published = Some [], row_last_updated = Some [],
        row_compliance_deadline = Some [], row_significant_changes = Some [],
        row_impact_level = Some ''High'', row_affected_sectors = Some [],
        row_jurisdiction = Some ''EU''\<rparr>,
      \<lparr>row_id = 2, row_source = ''UK'', row_title = ''Y'', row_link = ''http://b'',
        row_date = ''2025-02-01'', row_summary = ''t'',
        row_first_published = Some [], row_last_updated = Some [],
        row_compliance_deadline = Some [], row_significant_changes = Some [],
        row_impact_level = Some ''high'', row_affected_sectors = Some [],
        row_jurisdiction = Some ''UK''\<rparr>]"

section \<open>The insert loop\<close>

lemma execute_insert_Some:
  "execute_insert cols (Some t) item =
     (if well_formed item \<and> natural_key item \<notin> table_keys t
      then Inr (Some (t @ [bound_row cols t item]))
      else Inl (IntegrityError (if well_formed item
             then ''UNIQUE constraint failed: updates.source, updates.title, updates.link''
             else ''NOT NULL constraint failed'')))"
  by (auto simp: execute_insert_def well_formed_def natural_key_def bound_row_def split: option.splits)

lemma row_key_bound_row:
  "well_formed item \<Longrightarrow> row_key (bound_row cols t item) = natural_key item"
  by (auto simp: row_key_def bound_row_def natural_key_def well_formed_def)

lemma store_loop_fresh:
  "well_formed item \<Longrightarrow> natural_key item \<notin> table_keys t \<Longrightarrow>
   store_loop cols (Some t) (item # items) acc =
     store_loop cols (Some (t @ [bound_row cols t item])) items (acc @ [item])"
  by (simp add: execute_insert_Some)

lemma store_loop_skip:
  "\<not> (well_formed item \<and> natural_key item \<notin> table_keys t) \<Longrightarrow>
   store_loop cols (Some t) (item # items) acc = store_loop cols (Some t) items acc"
  by (cases "well_formed item") (auto simp: execute_insert_Some)

lemma store_loop_total:
  "\<exists>t' new. store_loop cols (Some t) xs acc = Inr (Some t', new)"
proof (induction xs arbitrary: t acc)
  case Nil
  show ?case by simp
next
  case (Cons x xs)
  show ?case
  proof (cases "well_formed x \<and> natural_key x \<notin> table_keys t")
    case True
    then have wf: "well_formed x" and nk: "natural_key x \<notin> table_keys t" by simp_all
    show ?thesis using Cons.IH by (simp only: store_loop_fresh [OF wf nk])
  next
    case False
    show ?thesis using Cons.IH by (simp only: store_loop_skip [OF False])
  qed
qed

lemma store_loop_append:
  "store_loop cols (Some t) xs acc = Inr (Some t', new) \<Longrightarrow>
   store_loop cols (Some t) (xs @ ys) acc = store_loop cols (Some t') ys new"
proof (induction xs arbitrary: t acc)
  case Nil
  then show ?case by simp
next
  case (Cons x xs)
  show ?case
  proof (cases "well_formed x \<and> natural_key x \<notin> table_keys t")
    case True
    then have wf: "well_formed x" and nk: "natural_key x \<notin> table_keys t" by simp_all
    let ?t1 = "t @ [bound_row cols t x]"
    from Cons.prems have "store_loop cols (Some ?t1) xs (acc @ [x]) = Inr (Some t', new)"
      by (simp only: store_loop_fresh [OF wf nk])
    from Cons.IH [OF this] show ?thesis
      by (simp only: append_Cons store_loop_fresh [OF wf nk])
  next
    case False
    from Cons.prems have "store_loop cols (Some t) xs acc = Inr (Some t', new)"
      by (simp only: store_loop_skip [OF False])
    from Cons.IH [OF this] show ?thesis
      by (simp only: append_Cons store_loop_skip [OF False])
  qed
qed

lemma store_loop_snoc_fresh:
  assumes "store_loop cols (Some t) xs [] = Inr (Some t', new)"
    and "well_formed x" and "natural_key x \<notin> table_keys t'"
  shows "store_loop cols (Some t) (xs @ [x]) [] =
           Inr (Some (t' @ [bound_row cols t' x]), new @ [x])"
  using store_loop_append [OF assms(1), of "[x]"]
  by (simp only: store_loop_fresh [OF assms(2,3)] store_loop.simps(1))

lemma store_loop_snoc_skip:
  assumes "store_loop cols (Some t) xs [] = Inr (Some t', new)"
    and "\<not> (well_formed x \<and> natural_key x \<notin> table_keys t')"
  shows "store_loop cols (Some t) (xs @ [x]) [] = Inr (Some t', new)"
  using store_loop_append [OF assms(1), of "[x]"]
  by (simp only: store_loop_skip [OF assms(2)] store_loop.simps(1))

lemma table_keys_snoc:
  "table_keys (t @ [r]) = insert (row_key r) (table_keys t)"
  by (simp add: table_keys_def)

lemma store_loop_keys:
  "store_loop cols (Some t) xs [] = Inr (Some t', new) \<Longrightarrow>
   table_keys t' = table_keys t \<union> natural_key ` {x \<in> set xs. well_formed x}"
proof (induction xs arbitrary: t' new rule: rev_induct)
  case Nil
  then show ?case by simp
next
  case (snoc x xs)
  obtain t1 n1 where r1: "store_loop cols (Some t) xs [] = Inr (Some t1, n1)"
    using store_loop_total by blast
  have k1: "table_keys t1 = table_keys t \<union> natural_key ` {x \<in> set xs. well_formed x}"
    by (rule snoc.IH [OF r1])
  have rhs: "table_keys t \<union> natural_key ` {y \<in> set (xs @ [x]). well_formed y} =
      (if well_formed x then insert (natural_key x) (table_keys t1) else table_keys t1)"
    by (auto simp: k1)
  show ?case
  proof (cases "well_formed x \<and> natural_key x \<notin> table_keys t1")
    case True
    with snoc.prems have "t' = t1 @ [bound_row cols t1 x]"
      by (simp add: store_loop_snoc_fresh [OF r1])
    then have "table_keys t' = insert (natural_key x) (table_keys t1)"
      using True by (simp add: table_keys_snoc row_key_bound_row)
    with True show ?thesis by (simp only: rhs if_True)
  next
    case False
    with snoc.prems have "t' = t1"
      by (simp add: store_loop_snoc_skip [OF r1])
    with False show ?thesis by (auto simp only: rhs insert_absorb split: if_splits)
  qed
qed

lemma store_loop_distinct:
  "store_loop cols (Some t) xs [] = Inr (Some t', new) \<Longrightarrow>
   distinct (map row_key t) \<Longrightarrow> distinct (map row_key t')"
proof (induction xs arbitrary: t' new rule: rev_induct)
  case Nil
  then show ?case by simp
next
  case (snoc x xs)
  obtain t1 n1 where r1: "store_loop cols (Some t) xs [] = Inr (Some t1, n1)"
    using store_loop_total by blast
  have d1: "distinct (map row_key t1)"
    by (rule snoc.IH [OF r1 snoc.prems(2)])
  show ?case
  proof (cases "well_formed x \<and> natural_key x \<notin> table_keys t1")
    case True
    with snoc.prems(1) have "t' = t1 @ [bound_row cols t1 x]"
      by (simp add: store_loop_snoc_fresh [OF r1])
    with True d1 show ?thesis
      by (simp add: table_keys_def row_key_bound_row)
  next
    case False
    with snoc.prems(1) have "t' = t1"
      by (simp add: store_loop_snoc_skip [OF r1])
    with d1 show ?thesis by simp
  qed
qed

lemma stored_keys_before_snoc:
  "i \<le> length xs \<Longrightarrow> stored_keys_before cols t (xs @ [x]) i = stored_keys_before cols t xs i"
  by (simp add: stored_keys_before_def)

lemma store_loop_new_items:
  "\<exists>t'. store_loop cols (Some t) items [] =
     Inr (Some t', map ((!) items)
       (filter (\<lambda>i. well_formed (items ! i) \<and>
                  natural_key (items ! i) \<notin> stored_keys_before cols t items i)
          [0..<length items]))"
proof (induction items rule: rev_induct)
  case Nil
  show ?case by simp
next
  case (snoc x xs)
  let ?P = "\<lambda>ys i. well_formed (ys ! i) \<and> natural_key (ys ! i) \<notin> stored_keys_before cols t ys i"
  from snoc.IH obtain t1 where
    r1: "store_loop cols (Some t) xs [] = Inr (Some t1, map ((!) xs) (filter (?P xs) [0..<length xs]))"
    by blast
  have same: "map ((!) (xs @ [x])) (filter (?P (xs @ [x])) [0..<length xs])
            = map ((!) xs) (filter (?P xs) [0..<length xs])"
  proof -
    have "filter (?P (xs @ [x])) [0..<length xs] = filter (?P xs) [0..<length xs]"
      by (rule filter_cong) (auto simp: nth_append stored_keys_before_snoc)
    moreover have "map ((!) (xs @ [x])) (filter (?P xs) [0..<length xs])
       = map ((!) xs) (filter (?P xs) [0..<length xs])"
      by (rule map_cong) (auto simp: nth_append)
    ultimately show ?thesis by simp
  qed
  have last: "stored_keys_before cols t (xs @ [x]) (length xs) = table_keys t1"
    by (simp add: stored_keys_before_def r1)
  show ?case
  proof (cases "well_formed x \<and> natural_key x \<notin> table_keys t1")
    case True
    then show ?thesis
      by (simp add: store_loop_snoc_fresh [OF r1] same last)
  next
    case False
    then show ?thesis
      by (auto simp add: store_loop_snoc_skip [OF r1] same last)
  qed
qed

lemma store_loop_subseq:
  "store_loop cols (Some t) xs [] = Inr (Some t', new) \<Longrightarrow> subseq new xs"
proof (induction xs arbitrary: t' new rule: rev_induct)
  case Nil
  then show ?case by simp
next
  case (snoc x xs)
  obtain t1 n1 where r1: "store_loop cols (Some t) xs [] = Inr (Some t1, n1)"
    using store_loop_total by blast
  have s1: "subseq n1 xs" by (rule snoc.IH [OF r1])
  show ?case
  proof (cases "well_formed x \<and> natural_key x \<notin> table_keys t1")
    case True
    with snoc.prems have "new = n1 @ [x]"
      by (simp add: store_loop_snoc_fresh [OF r1])
    with s1 show ?thesis by (simp add: list_emb_append_mono)
  next
    case False
    with snoc.prems have "new = n1"
      by (simp add: store_loop_snoc_skip [OF r1])
    with s1 show ?thesis by (simp add: list_emb_prefix)
  qed
qed

lemma store_loop_well_formed_new:
  assumes "\<forall>item\<in>set items. well_formed item"
  shows "\<exists>t'. store_loop cols (Some t) items [] =
            Inr (Some t', records_not_yet_stored cols t items)"
proof -
  have "filter (\<lambda>i. well_formed (items ! i) \<and>
                  natural_key (items ! i) \<notin> stored_keys_before cols t items i)
          [0..<length items]
      = filter (\<lambda>i. natural_key (items ! i) \<notin> stored_keys_before cols t items i)
          [0..<length items]"
    using assms by (intro filter_cong) auto
  with store_loop_new_items [of cols t items] show ?thesis
    by (simp add: records_not_yet_stored_def)
qed

lemma store_loop_returns_new:
  assumes "\<forall>item\<in>set items. well_formed item"
  shows "(\<exists>t'. store_loop cols (Some t) items [] =
            Inr (Some t', records_not_yet_stored cols t items)) \<and>
         subseq (records_not_yet_stored cols t items) items"
  using store_loop_well_formed_new [OF assms, of cols t] store_loop_subseq [of cols t items]
  by auto

lemma stored_keys_before_well_formed:
  assumes "\<forall>item\<in>set items. well_formed item"
  shows "stored_keys_before cols t items i = table_keys t \<union> natural_key ` set (take i items)"
proof -
  obtain t1 n1 where r1: "store_loop cols (Some t) (take i items) [] = Inr (Some t1, n1)"
    using store_loop_total by blast
  have "{x \<in> set (take i items). well_formed x} = set (take i items)"
    using assms by (auto dest: in_set_takeD)
  with store_loop_keys [OF r1] r1 show ?thesis
    by (simp add: stored_keys_before_def)
qed

section \<open>Claims about the store\<close>

lemma store_loop_stored_keys:
  "stored_keys_before cols t items i =
     table_keys t \<union> natural_key ` {x \<in> set (take i items). well_formed x}"
proof -
  obtain t1 n1 where r1: "store_loop cols (Some t) (take i items) [] = Inr (Some t1, n1)"
    using store_loop_total by blast
  from store_loop_keys [OF r1] r1 show ?thesis
    by (simp add: stored_keys_before_def)
qed

lemma store_loop_returns_insertable:
  "(\<exists>t'. store_loop cols (Some t) items [] =
      Inr (Some t', insertable_records_not_yet_stored cols t items)) \<and>
   subseq (insertable_records_not_yet_stored cols t items) items"
  using store_loop_new_items [of cols t items] store_loop_subseq [of cols t items]
  by (auto simp: insertable_records_not_yet_stored_def)

text \<open>
  C1, as stated: for every input sequence of records \<open>store_updates\<close> returns
  exactly the records whose natural key was not stored at the time of their
  insert. It fails on a record that lacks a required field: the key of the
  record below is not stored, and the record is not returned.
\<close>

theorem store_updates_new_records_counterexample:
  "store_updates (Some [])
     [(UpdateItem_init ''EU'' ''X'' ''http://a'' ''2025-01-01'' ''s'')\<lparr>summary := None\<rparr>] =
     Inr (Some [], []) \<and>
   natural_key
     ((UpdateItem_init ''EU'' ''X'' ''http://a'' ''2025-01-01'' ''s'')\<lparr>summary := None\<rparr>)
     \<notin> table_keys ([] :: basic_row list) \<and>
   records_not_yet_stored basic_columns []
     [(UpdateItem_init ''EU'' ''X'' ''http://a'' ''2025-01-01'' ''s'')\<lparr>summary := None\<rparr>] =
     [(UpdateItem_init ''EU'' ''X'' ''http://a'' ''2025-01-01'' ''s'')\<lparr>summary := None\<rparr>] \<and>
   store_updates_enhanced (Some [])
     [(UpdateItem_init ''EU'' ''X'' ''http://a'' ''2025-01-01'' ''s'')\<lparr>summary := None\<rparr>] =
     Inr (Some [], [])"
  by (simp add: store_updates_def store_updates_enhanced_def execute_insert_def
        UpdateItem_init_def table_keys_def records_not_yet_stored_def
        stored_keys_before_def)

text \<open>
  C1, amended: for every input sequence of records \<open>store_updates\<close> does not
  raise and returns exactly the input records that have their five required
  fields and whose natural key was not stored at the time of their insert, in
  the order of the input; a record whose key is stored, and a record that lacks
  a required field, is skipped and is not returned. The keys stored when the
  loop reaches a record are those of the store at the start and of the records
  with their required fields before it in the batch. This holds for the basic
  and for the enhanced store.
\<close>

theorem store_updates_returns_new_insertable_records:
  "(\<exists>t'. store_updates (Some t) items =
      Inr (Some t', insertable_records_not_yet_stored basic_columns t items)) \<and>
   subseq (insertable_records_not_yet_stored basic_columns t items) items \<and>
   (\<exists>t'. store_updates_enhanced (Some te) items =
      Inr (Some t', insertable_records_not_yet_stored enhanced_columns te items)) \<and>
   subseq (insertable_records_not_yet_stored enhanced_columns te items) items \<and>
   stored_keys_before basic_columns t items i =
     table_keys t \<union> natural_key ` {x \<in> set (take i items). well_formed x} \<and>
   stored_keys_before enhanced_columns te items i =
     table_keys te \<union> natural_key ` {x \<in> set (take i items). well_formed x}"
  unfolding store_updates_def store_updates_enhanced_def
  using store_loop_returns_insertable [of basic_columns t items]
        store_loop_returns_insertable [of enhanced_columns te items]
        store_loop_stored_keys [of basic_columns t items i]
        store_loop_stored_keys [of enhanced_columns te items i]
  by blast

theorem store_updates_returns_new_insertable_records_witness:
  "store_updates (Some [])
     [UpdateItem_init ''EU'' ''X'' ''http://a'' ''2025-01-01'' ''s'',
      (UpdateItem_init ''IFRS'' ''Z'' ''http://z'' ''2025-03-01'' ''u'')\<lparr>summary := None\<rparr>,
      UpdateItem_init ''EU'' ''X'' ''http://a'' ''2025-01-01'' ''s'',
      UpdateItem_init ''UK'' ''Y'' ''http://b'' ''2025-02-01'' ''t''] =
     Inr (Some [\<lparr>row_id = 1, row_source = ''EU'', row_title = ''X'', row_link = ''http://a'',
                  row_date = ''2025-01-01'', row_summary = ''s''\<rparr>,
                \<lparr>row_id = 2, row_source = ''UK'', row_title = ''Y'', row_link = ''http://b'',
                  row_date = ''2025-02-01'', row_summary = ''t''\<rparr>],
          [UpdateItem_init ''EU'' ''X'' ''http://a'' ''2025-01-01'' ''s'',
           UpdateItem_init ''UK'' ''Y'' ''http://b'' ''2025-02-01'' ''t'']) \<and>
   insertable_records_not_yet_stored basic_columns []
     [UpdateItem_init ''EU'' ''X'' ''http://a'' ''2025-01-01'' ''s'',
      (UpdateItem_init ''IFRS'' ''Z'' ''http://z'' ''2025-03-01'' ''u'')\<lparr>summary := None\<rparr>,
      UpdateItem_init ''EU'' ''X'' ''http://a'' ''2025-01-01'' ''s'',
      UpdateItem_init ''UK'' ''Y'' ''http://b'' ''2025-02-01'' ''t''] =
     [UpdateItem_init ''EU'' ''X'' ''http://a'' ''2025-01-01'' ''s'',
      UpdateItem_init ''UK'' ''Y'' ''http://b'' ''2025-02-01'' ''t'']"
proof -
  let ?x = "UpdateItem_init ''EU'' ''X'' ''http://a'' ''2025-01-01'' ''s''"
  let ?y = "UpdateItem_init ''UK'' ''Y'' ''http://b'' ''2025-02-01'' ''t''"
  let ?bad = "(UpdateItem_init ''IFRS'' ''Z'' ''http://z'' ''2025-03-01'' ''u'')\<lparr>summary := None\<rparr>"
  have run: "store_updates (Some []) [?x, ?bad, ?x, ?y] =
     Inr (Some [\<lparr>row_id = 1, row_source = ''EU'', row_title = ''X'', row_link = ''http://a'',
                  row_date = ''2025-01-01'', row_summary = ''s''\<rparr>,
                \<lparr>row_id = 2, row_source = ''UK'', row_title = ''Y'', row_link = ''http://b'',
                  row_date = ''2025-02-01'', row_summary = ''t''\<rparr>],
          [?x, ?y])"
    by (simp add: store_updates_def execute_insert_def UpdateItem_init_def table_keys_def
          row_key_def next_id_def basic_columns_def)
  from store_updates_returns_new_insertable_records [of "[]" "[?x, ?bad, ?x, ?y]" "[]" 0] run
  show ?thesis by auto
qed

text \<open>
  For a batch in which every record has its required fields, the returned
  records are those whose natural key was not stored at the time of their insert.
\<close>

lemma store_updates_well_formed_batch:
  assumes "\<forall>item\<in>set items. well_formed item"
  shows "(\<exists>t'. store_updates (Some t) items =
            Inr (Some t', records_not_yet_stored basic_columns t items)) \<and>
         (\<exists>t'. store_updates_enhanced (Some te) items =
            Inr (Some t', records_not_yet_stored enhanced_columns te items)) \<and>
         (\<forall>i. stored_keys_before basic_columns t items i =
                table_keys t \<union> natural_key ` set (take i items)) \<and>
         (\<forall>i. stored_keys_before enhanced_columns te items i =
                table_keys te \<union> natural_key ` set (take i items))"
  unfolding store_updates_def store_updates_enhanced_def
  using store_loop_returns_new [OF assms, of basic_columns t]
        store_loop_returns_new [OF assms, of enhanced_columns te]
        stored_keys_before_well_formed [OF assms, of basic_columns t]
        stored_keys_before_well_formed [OF assms, of enhanced_columns te]
  by blast

lemma store_loop_all_skipped:
  "\<forall>x\<in>set xs. \<not> (well_formed x \<and> natural_key x \<notin> table_keys t) \<Longrightarrow>
   store_loop cols (Some t) xs acc = Inr (Some t, acc)"
proof (induction xs)
  case Nil
  show ?case by simp
next
  case (Cons x xs)
  from Cons.prems have skip: "\<not> (well_formed x \<and> natural_key x \<notin> table_keys t)"
    and rest: "\<forall>x\<in>set xs. \<not> (well_formed x \<and> natural_key x \<notin> table_keys t)"
    by simp_all
  show ?case
    by (simp only: store_loop_skip [OF skip] Cons.IH [OF rest])
qed

lemma store_loop_twice:
  "\<exists>t1 new1. store_loop cols (initialise_db None) items [] = Inr (Some t1, new1) \<and>
     store_loop cols (initialise_db (Some t1)) items [] = Inr (Some t1, [])"
proof -
  obtain t1 new1 where r1: "store_loop cols (Some []) items [] = Inr (Some t1, new1)"
    using store_loop_total by blast
  have "table_keys t1 = natural_key ` {x \<in> set items. well_formed x}"
    using store_loop_keys [OF r1] by (simp add: table_keys_def)
  then have "\<forall>x\<in>set items. \<not> (well_formed x \<and> natural_key x \<notin> table_keys t1)"
    by auto
  then have "store_loop cols (Some t1) items [] = Inr (Some t1, [])"
    by (rule store_loop_all_skipped)
  with r1 show ?thesis by (simp add: initialise_db_def)
qed

text \<open>
  C2. Ingestion is idempotent: starting from an empty store, a second run of
  \<open>store_updates\<close> with the same records returns no new record and leaves the
  stored rows as the first run left them (so their number is the same). Each
  run opens the database with \<open>initialise_db\<close>, as \<open>run_daily_task\<close> does.
\<close>

theorem ingestion_idempotent:
  "(\<exists>t1 new1 t2.
      store_updates (initialise_db None) items = Inr (Some t1, new1) \<and>
      store_updates (initialise_db (Some t1)) items = Inr (Some t2, []) \<and>
      t2 = t1 \<and> length t2 = length t1) \<and>
   (\<exists>t1 new1 t2.
      store_updates_enhanced (initialise_db None) items = Inr (Some t1, new1) \<and>
      store_updates_enhanced (initialise_db (Some t1)) items = Inr (Some t2, []) \<and>
      t2 = t1 \<and> length t2 = length t1)"
  unfolding store_updates_def store_updates_enhanced_def
  using store_loop_twice [of basic_columns items] store_loop_twice [of enhanced_columns items]
  by auto

lemma initialise_db_unique: "unique_keys db \<Longrightarrow> unique_keys (initialise_db db)"
  by (cases db) (simp_all add: initialise_db_def unique_keys_def)

lemma store_loop_None:
  "store_loop cols None items acc = (if items = [] then Inr (None, acc) else Inl (OperationalError ''no such table: updates''))"
  by (cases items) (simp_all add: execute_insert_def)

lemma store_loop_unique:
  "unique_keys db \<Longrightarrow> store_loop cols db items [] = Inr (db', new) \<Longrightarrow> unique_keys db'"
proof (cases db)
  case None
  assume "store_loop cols db items [] = Inr (db', new)"
  with None have "db' = None" by (simp add: store_loop_None split: if_splits)
  then show ?thesis by (simp add: unique_keys_def)
next
  case (Some t)
  assume u: "unique_keys db" and r: "store_loop cols db items [] = Inr (db', new)"
  from store_loop_total [of cols t items "[]"] r Some obtain t' where d: "db' = Some t'"
    by auto
  from store_loop_distinct [of cols t items t' new] r u Some d show ?thesis
    by (simp add: unique_keys_def)
qed

lemma run_ops_unique:
  "unique_keys db \<Longrightarrow> unique_keys (fst (run_ops cols db ops))"
proof (induction ops arbitrary: db)
  case Nil
  then show ?case by simp
next
  case (Cons op ops)
  show ?case
  proof (cases op)
    case InitialiseDb
    with Cons.IH [OF initialise_db_unique [OF Cons.prems]] show ?thesis by simp
  next
    case (StoreUpdates items)
    show ?thesis
    proof (cases "store_loop cols db items []")
      case (Inl e)
      with StoreUpdates Cons.prems show ?thesis by simp
    next
      case (Inr r)
      obtain db' new where r: "r = (db', new)" by (cases r)
      from store_loop_unique [OF Cons.prems] Inr r have "unique_keys db'" by simp
      from Cons.IH [OF this] StoreUpdates Inr r show ?thesis by simp
    qed
  qed
qed

text \<open>
  C3. Natural-key uniqueness is an invariant of the store: whatever sequence of
  \<open>initialise_db\<close> and \<open>store_updates\<close> calls is run on a fresh database file,
  no two stored rows share the triple (source, title, link).
\<close>

theorem natural_key_uniqueness:
  "unique_keys (fst (run_ops basic_columns None ops)) \<and>
   unique_keys (fst (run_ops enhanced_columns None ops))"
  using run_ops_unique [of None basic_columns ops] run_ops_unique [of None enhanced_columns ops]
  by (simp add: unique_keys_def)

lemma store_loop_drop_malformed:
  assumes "\<not> well_formed bad"
  shows "store_loop cols (Some t) (before @ bad # rest) [] =
         store_loop cols (Some t) (before @ rest) []"
proof -
  obtain t1 n1 where r1: "store_loop cols (Some t) before [] = Inr (Some t1, n1)"
    using store_loop_total by blast
  from assms have skip: "\<not> (well_formed bad \<and> natural_key bad \<notin> table_keys t1)"
    by simp
  show ?thesis
    by (simp only: store_loop_append [OF r1] store_loop_skip [OF skip])
qed

lemma store_loop_later_inserted:
  assumes r: "store_loop cols (Some t) items [] = Inr (Some t', new)"
    and i: "i < length items" and wf: "well_formed (items ! i)"
    and fresh: "natural_key (items ! i) \<notin> stored_keys_before cols t items i"
  shows "items ! i \<in> set new \<and> natural_key (items ! i) \<in> table_keys t'"
proof -
  from store_loop_new_items [of cols t items] r
  have "new = map ((!) items)
       (filter (\<lambda>i. well_formed (items ! i) \<and>
                  natural_key (items ! i) \<notin> stored_keys_before cols t items i)
          [0..<length items])"
    by auto
  with i wf fresh have "items ! i \<in> set new" by auto
  moreover have "natural_key (items ! i) \<in> table_keys t'"
    using store_loop_keys [OF r] i wf by auto
  ultimately show ?thesis by simp
qed

lemma store_loop_new_well_formed:
  "store_loop cols (Some t) xs [] = Inr (Some t', new) \<Longrightarrow> x \<in> set new \<Longrightarrow> well_formed x"
proof (induction xs arbitrary: t' new rule: rev_induct)
  case Nil
  then show ?case by simp
next
  case (snoc y ys)
  obtain t1 n1 where r1: "store_loop cols (Some t) ys [] = Inr (Some t1, n1)"
    using store_loop_total by blast
  show ?case
  proof (cases "well_formed y \<and> natural_key y \<notin> table_keys t1")
    case True
    with snoc.prems(1) have "new = n1 @ [y]"
      by (simp add: store_loop_snoc_fresh [OF r1])
    with snoc.prems(2) snoc.IH [OF r1] True show ?thesis by auto
  next
    case False
    with snoc.prems(1) have "new = n1"
      by (simp add: store_loop_snoc_skip [OF r1])
    with snoc.prems(2) snoc.IH [OF r1] show ?thesis by simp
  qed
qed

lemma store_loop_skips_malformed:
  assumes "\<not> well_formed bad"
  shows "store_loop cols (Some t) (before @ bad # rest) [] =
           store_loop cols (Some t) (before @ rest) [] \<and>
         (\<exists>t' new.
            store_loop cols (Some t) (before @ bad # rest) [] = Inr (Some t', new) \<and>
            bad \<notin> set new \<and>
            (\<forall>i<length rest.
               well_formed (rest ! i) \<and>
               natural_key (rest ! i) \<notin>
                 stored_keys_before cols t (before @ bad # rest) (length before + 1 + i) \<longrightarrow>
               rest ! i \<in> set new \<and> natural_key (rest ! i) \<in> table_keys t'))"
proof -
  let ?items = "before @ bad # rest"
  obtain t' new where r: "store_loop cols (Some t) ?items [] = Inr (Some t', new)"
    using store_loop_total by blast
  have nth_rest: "\<And>i. ?items ! (length before + 1 + i) = rest ! i"
    by (simp add: nth_append)
  have later: "\<forall>i<length rest.
               well_formed (rest ! i) \<and>
               natural_key (rest ! i) \<notin>
                 stored_keys_before cols t ?items (length before + 1 + i) \<longrightarrow>
               rest ! i \<in> set new \<and> natural_key (rest ! i) \<in> table_keys t'"
  proof (intro allI impI)
    fix i
    assume i: "i < length rest"
      and h: "well_formed (rest ! i) \<and>
               natural_key (rest ! i) \<notin>
                 stored_keys_before cols t ?items (length before + 1 + i)"
    from i have lt: "length before + 1 + i < length ?items" by simp
    from h have wf: "well_formed (?items ! (length before + 1 + i))"
      by (simp add: nth_append)
    from h have fresh: "natural_key (?items ! (length before + 1 + i)) \<notin>
        stored_keys_before cols t ?items (length before + 1 + i)"
      by (simp add: nth_append)
    from store_loop_later_inserted [OF r lt wf fresh]
    show "rest ! i \<in> set new \<and> natural_key (rest ! i) \<in> table_keys t'"
      by (simp add: nth_append)
  qed
  have "bad \<notin> set new"
    using store_loop_new_well_formed [OF r] assms by blast
  with r later store_loop_drop_malformed [OF assms, of cols t before rest]
  show ?thesis by blast
qed

text \<open>
  C5. A malformed record (one of the five required fields is missing) fails its
  own insert only: \<open>store_updates\<close> does not raise, the result is the result
  for the batch without that record, the record is not returned, and every
  well-formed record later in the batch whose key is not stored when the loop
  reaches it is inserted and returned.
\<close>

theorem store_updates_skips_malformed:
  assumes "\<not> well_formed bad"
  shows "(store_updates (Some t) (before @ bad # rest) =
            store_updates (Some t) (before @ rest) \<and>
          (\<exists>t' new.
             store_updates (Some t) (before @ bad # rest) = Inr (Some t', new) \<and>
             bad \<notin> set new \<and>
             (\<forall>i<length rest.
                well_formed (rest ! i) \<and>
                natural_key (rest ! i) \<notin>
                  stored_keys_before basic_columns t (before @ bad # rest)
                    (length before + 1 + i) \<longrightarrow>
                rest ! i \<in> set new \<and> natural_key (rest ! i) \<in> table_keys t'))) \<and>
         (store_updates_enhanced (Some te) (before @ bad # rest) =
            store_updates_enhanced (Some te) (before @ rest) \<and>
          (\<exists>t' new.
             store_updates_enhanced (Some te) (before @ bad # rest) = Inr (Some t', new) \<and>
             bad \<notin> set new \<and>
             (\<forall>i<length rest.
                well_formed (rest ! i) \<and>
                natural_key (rest ! i) \<notin>
                  stored_keys_before enhanced_columns te (before @ bad # rest)
                    (length before + 1 + i) \<longrightarrow>
                rest ! i \<in> set new \<and> natural_key (rest ! i) \<in> table_keys t')))"
  unfolding store_updates_def store_updates_enhanced_def
  using store_loop_skips_malformed [OF assms, of basic_columns t before rest]
        store_loop_skips_malformed [OF assms, of enhanced_columns te before rest]
  by (rule conjI)

theorem store_updates_skips_malformed_witness:
  "\<not> well_formed
       ((UpdateItem_init ''IFRS'' ''Z'' ''http://z'' ''2025-03-01'' ''u'')\<lparr>summary := None\<rparr>) \<and>
   store_updates (Some [])
     [UpdateItem_init ''EU'' ''X'' ''http://a'' ''2025-01-01'' ''s'',
      (UpdateItem_init ''IFRS'' ''Z'' ''http://z'' ''2025-03-01'' ''u'')\<lparr>summary := None\<rparr>,
      UpdateItem_init ''UK'' ''Y'' ''http://b'' ''2025-02-01'' ''t''] =
     Inr (Some [\<lparr>row_id = 1, row_source = ''EU'', row_title = ''X'', row_link = ''http://a'',
                  row_date = ''2025-01-01'', row_summary = ''s''\<rparr>,
                \<lparr>row_id = 2, row_source = ''UK'', row_title = ''Y'', row_link = ''http://b'',
                  row_date = ''2025-02-01'', row_summary = ''t''\<rparr>],
          [UpdateItem_init ''EU'' ''X'' ''http://a'' ''2025-01-01'' ''s'',
           UpdateItem_init ''UK'' ''Y'' ''http://b'' ''2025-02-01'' ''t''])"
proof -
  let ?x = "UpdateItem_init ''EU'' ''X'' ''http://a'' ''2025-01-01'' ''s''"
  let ?y = "UpdateItem_init ''UK'' ''Y'' ''http://b'' ''2025-02-01'' ''t''"
  let ?bad = "(UpdateItem_init ''IFRS'' ''Z'' ''http://z'' ''2025-03-01'' ''u'')\<lparr>summary := None\<rparr>"
  have bad: "\<not> well_formed ?bad"
    by (simp add: UpdateItem_init_def well_formed_def)
  have run: "store_updates (Some []) ([?x] @ [?y]) =
     Inr (Some [\<lparr>row_id = 1, row_source = ''EU'', row_title = ''X'', row_link = ''http://a'',
                  row_date = ''2025-01-01'', row_summary = ''s''\<rparr>,
                \<lparr>row_id = 2, row_source = ''UK'', row_title = ''Y'', row_link = ''http://b'',
                  row_date = ''2025-02-01'', row_summary = ''t''\<rparr>],
          [?x, ?y])"
    by (simp add: store_updates_def execute_insert_def UpdateItem_init_def table_keys_def
          row_key_def next_id_def basic_columns_def)
  from store_updates_skips_malformed [OF bad, of "[]" "[?x]" "[?y]" "[]"]
  have "store_updates (Some []) ([?x] @ ?bad # [?y]) = store_updates (Some []) ([?x] @ [?y])"
    by (rule conjunct1 [OF conjunct1])
  with run bad show ?thesis by simp
qed

lemma store_loop_two_distinct:
  assumes "well_formed a" and "well_formed b" and "natural_key a \<noteq> natural_key b"
    and "natural_key a \<notin> table_keys t" and "natural_key b \<notin> table_keys t"
  shows "\<exists>ra rb. store_loop cols (Some t) [a, b] [] = Inr (Some (t @ [ra, rb]), [a, b]) \<and>
            row_key ra = natural_key a \<and> row_key rb = natural_key b"
proof -
  let ?ra = "bound_row cols t a"
  let ?rb = "bound_row cols (t @ [?ra]) b"
  have kb: "natural_key b \<notin> table_keys (t @ [?ra])"
    using assms by (simp add: table_keys_snoc row_key_bound_row)
  have "store_loop cols (Some t) [a, b] [] = Inr (Some ((t @ [?ra]) @ [?rb]), [a, b])"
    by (simp only: store_loop_fresh [OF assms(1,4)] store_loop_fresh [OF assms(2) kb]
          store_loop.simps(1) append_Nil append_Cons)
  with assms show ?thesis
    by (auto simp: row_key_bound_row)
qed

text \<open>
  C9. Duplicate detection compares the natural key by equality of strings: two
  records whose triples (source, title, link) differ, be it only in the case of
  a letter, are both stored and both returned.
\<close>

theorem duplicate_detection_exact:
  assumes "well_formed a" and "well_formed b" and "natural_key a \<noteq> natural_key b"
    and "natural_key a \<notin> table_keys t" and "natural_key b \<notin> table_keys t"
    and "natural_key a \<notin> table_keys te" and "natural_key b \<notin> table_keys te"
  shows "(\<exists>ra rb. store_updates (Some t) [a, b] = Inr (Some (t @ [ra, rb]), [a, b]) \<and>
            row_key ra = natural_key a \<and> row_key rb = natural_key b) \<and>
         (\<exists>ra rb. store_updates_enhanced (Some te) [a, b] = Inr (Some (te @ [ra, rb]), [a, b]) \<and>
            row_key ra = natural_key a \<and> row_key rb = natural_key b)"
  unfolding store_updates_def store_updates_enhanced_def
  using store_loop_two_distinct [OF assms(1,2,3,4,5), of basic_columns]
        store_loop_two_distinct [OF assms(1,2,3,6,7), of enhanced_columns]
  by (rule conjI)

theorem duplicate_detection_exact_witness:
  "well_formed (UpdateItem_init ''EU'' ''X'' ''http://a'' ''2025-01-01'' ''s'') \<and>
   well_formed (UpdateItem_init ''eu'' ''X'' ''http://a'' ''2025-01-01'' ''s'') \<and>
   natural_key (UpdateItem_init ''EU'' ''X'' ''http://a'' ''2025-01-01'' ''s'') \<noteq>
   natural_key (UpdateItem_init ''eu'' ''X'' ''http://a'' ''2025-01-01'' ''s'') \<and>
   (\<exists>ra rb.
      store_updates (Some [])
        [UpdateItem_init ''EU'' ''X'' ''http://a'' ''2025-01-01'' ''s'',
         UpdateItem_init ''eu'' ''X'' ''http://a'' ''2025-01-01'' ''s''] =
        Inr (Some [ra, rb],
             [UpdateItem_init ''EU'' ''X'' ''http://a'' ''2025-01-01'' ''s'',
              UpdateItem_init ''eu'' ''X'' ''http://a'' ''2025-01-01'' ''s'']) \<and>
      row_source ra = ''EU'' \<and> row_source rb = ''eu'') \<and>
   (\<exists>ra rb.
      store_updates_enhanced (Some [])
        [UpdateItem_init ''EU'' ''X'' ''http://a'' ''2025-01-01'' ''s'',
         UpdateItem_init ''eu'' ''X'' ''http://a'' ''2025-01-01'' ''s''] =
        Inr (Some [ra, rb],
             [UpdateItem_init ''EU'' ''X'' ''http://a'' ''2025-01-01'' ''s'',
              UpdateItem_init ''eu'' ''X'' ''http://a'' ''2025-01-01'' ''s'']) \<and>
      row_source ra = ''EU'' \<and> row_source rb = ''eu'')"
proof -
  let ?a = "UpdateItem_init ''EU'' ''X'' ''http://a'' ''2025-01-01'' ''s''"
  let ?b = "UpdateItem_init ''eu'' ''X'' ''http://a'' ''2025-01-01'' ''s''"
  have wa: "well_formed ?a" and wb: "well_formed ?b"
    by (simp_all add: UpdateItem_init_def well_formed_def)
  have ne: "natural_key ?a \<noteq> natural_key ?b"
    by (simp add: UpdateItem_init_def natural_key_def)
  have ka: "natural_key ?a = (Some ''EU'', Some ''X'', Some ''http://a'')"
    and kb: "natural_key ?b = (Some ''eu'', Some ''X'', Some ''http://a'')"
    by (simp_all add: UpdateItem_init_def natural_key_def)
  have e: "natural_key ?a \<notin> table_keys ([] :: basic_row list)"
          "natural_key ?b \<notin> table_keys ([] :: basic_row list)"
          "natural_key ?a \<notin> table_keys ([] :: enhanced_row list)"
          "natural_key ?b \<notin> table_keys ([] :: enhanced_row list)"
    by (simp_all add: table_keys_def)
  from duplicate_detection_exact [OF wa wb ne e] wa wb ne
  show ?thesis
    by (simp add: ka kb row_key_def) blast
qed

lemma gather_loop_result:
  "\<forall>entry\<in>set srcs. fails_with_Exception (snd entry) \<Longrightarrow>
   gather_loop srcs collected out =
     Inr (collected @ concat (map (\<lambda>entry. contribution (snd entry)) srcs),
          out @ concat (map reported srcs))"
proof (induction srcs arbitrary: collected out)
  case Nil
  show ?case by simp
next
  case (Cons entry srcs)
  obtain name p where entry: "entry = (name, p)" by (cases entry)
  from Cons.prems have rest: "\<forall>entry\<in>set srcs. fails_with_Exception (snd entry)"
    by simp
  show ?case
  proof (cases p)
    case (Inl e)
    with Cons.prems entry have "is_Exception e" by (simp add: fails_with_Exception_def)
    with Inl entry Cons.IH [OF rest] show ?thesis
      by (simp add: contribution_def reported_def)
  next
    case (Inr items)
    with entry Cons.IH [OF rest] show ?thesis
      by (simp add: contribution_def reported_def)
  qed
qed

section \<open>Claims about the aggregator and the statistics\<close>

text \<open>
  C4. When some parsers of the registry raise an exception, \<open>gather_updates\<close>
  does not raise: it returns the outputs of the parsers that return, joined in
  the order of the registry and, within a source, in the order of the parser's
  output, with nothing for a parser that raises, and prints one line for each
  failure.
\<close>

theorem gather_updates_tolerates_failures:
  assumes "\<forall>entry\<in>set SOURCES. fails_with_Exception (snd entry)"
  shows "gather_updates SOURCES =
           Inr (concat (map (\<lambda>entry. contribution (snd entry)) SOURCES),
                concat (map reported SOURCES))"
  unfolding gather_updates_def using gather_loop_result [OF assms, of "[]" "[]"] by simp

theorem gather_updates_tolerates_failures_witness:
  "fails_with_Exception (Inl (RuntimeError ''boom'')) \<and>
   gather_updates
     [(''EU'', Inr [UpdateItem_init ''EU'' ''X'' ''http://a'' ''2025-01-01'' ''s'']),
      (''IFRS'', Inl (RuntimeError ''boom'')),
      (''UK'', Inr [UpdateItem_init ''UK'' ''Y'' ''http://b'' ''2025-02-01'' ''t'',
                   UpdateItem_init ''UK'' ''Z'' ''http://c'' ''2025-02-02'' ''u''])] =
     Inr ([UpdateItem_init ''EU'' ''X'' ''http://a'' ''2025-01-01'' ''s'',
           UpdateItem_init ''UK'' ''Y'' ''http://b'' ''2025-02-01'' ''t'',
           UpdateItem_init ''UK'' ''Z'' ''http://c'' ''2025-02-02'' ''u''],
          [''Error scraping IFRS: boom''])"
proof -
  let ?srcs = "[(''EU'', Inr [UpdateItem_init ''EU'' ''X'' ''http://a'' ''2025-01-01'' ''s'']),
      (''IFRS'', Inl (RuntimeError ''boom'')),
      (''UK'', Inr [UpdateItem_init ''UK'' ''Y'' ''http://b'' ''2025-02-01'' ''t'',
                   UpdateItem_init ''UK'' ''Z'' ''http://c'' ''2025-02-02'' ''u''])]"
  have h: "\<forall>entry\<in>set ?srcs. fails_with_Exception (snd entry)"
    by (simp add: fails_with_Exception_def)
  from gather_updates_tolerates_failures [OF h] show ?thesis
    by (simp add: contribution_def reported_def fails_with_Exception_def)
qed

lemma gather_updates_propagates_interrupt:
  "gather_updates ((name, Inl KeyboardInterrupt) # rest) = Inl KeyboardInterrupt"
  by (simp add: gather_updates_def)

lemma impact_partition:
  "high_impact rows + medium_impact rows + low_impact rows +
     length (filter (\<lambda>r. row_impact_level r \<notin> {Some ''High'', Some ''Medium'', Some ''Low''}) rows)
   = total_updates rows"
  unfolding high_impact_def medium_impact_def low_impact_def total_updates_def
  by (induction rows) auto

lemma impact_counts_remove:
  assumes "row_impact_level r \<notin> {Some ''High'', Some ''Medium'', Some ''Low''}"
  shows "high_impact (before @ r # rest) = high_impact (before @ rest) \<and>
         medium_impact (before @ r # rest) = medium_impact (before @ rest) \<and>
         low_impact (before @ r # rest) = low_impact (before @ rest)"
  using assms by (simp add: high_impact_def medium_impact_def low_impact_def)

text \<open>
  C10. In the impact statistics a row whose \<open>impact_level\<close> is not exactly
  \<open>High\<close>, \<open>Medium\<close> or \<open>Low\<close> is counted in none of the three buckets
  (taking it out changes none of the three counts): the three counts add up to
  at most the total, and to the total exactly when every row has one of the
  three levels.
\<close>

theorem impact_counts_bounded:
  "high_impact rows + medium_impact rows + low_impact rows \<le> total_updates rows \<and>
   (high_impact rows + medium_impact rows + low_impact rows = total_updates rows \<longleftrightarrow>
      (\<forall>r\<in>set rows. row_impact_level r \<in> {Some ''High'', Some ''Medium'', Some ''Low''})) \<and>
   (\<forall>before r rest.
      rows = before @ r # rest \<and>
      row_impact_level r \<notin> {Some ''High'', Some ''Medium'', Some ''Low''} \<longrightarrow>
      high_impact rows = high_impact (before @ rest) \<and>
      medium_impact rows = medium_impact (before @ rest) \<and>
      low_impact rows = low_impact (before @ rest) \<and>
      total_updates rows = Suc (total_updates (before @ rest)))"
proof -
  let ?other = "filter (\<lambda>r. row_impact_level r \<notin> {Some ''High'', Some ''Medium'', Some ''Low''}) rows"
  have part: "high_impact rows + medium_impact rows + low_impact rows + length ?other
      = total_updates rows"
    by (rule impact_partition)
  have "length ?other = 0 \<longleftrightarrow>
      (\<forall>r\<in>set rows. row_impact_level r \<in> {Some ''High'', Some ''Medium'', Some ''Low''})"
    by (simp add: filter_empty_conv)
  with part have iff: "high_impact rows + medium_impact rows + low_impact rows = total_updates rows \<longleftrightarrow>
      (\<forall>r\<in>set rows. row_impact_level r \<in> {Some ''High'', Some ''Medium'', Some ''Low''})"
    by linarith
  from part have le: "high_impact rows + medium_impact rows + low_impact rows \<le> total_updates rows"
    by linarith
  have rm: "\<forall>before r rest.
      rows = before @ r # rest \<and>
      row_impact_level r \<notin> {Some ''High'', Some ''Medium'', Some ''Low''} \<longrightarrow>
      high_impact rows = high_impact (before @ rest) \<and>
      medium_impact rows = medium_impact (before @ rest) \<and>
      low_impact rows = low_impact (before @ rest) \<and>
      total_updates rows = Suc (total_updates (before @ rest))"
    using impact_counts_remove by (auto simp: total_updates_def)
  from le iff rm show ?thesis by blast
qed

theorem impact_counts_bounded_witness:
  "high_impact example_rows + medium_impact example_rows + low_impact example_rows
     \<noteq> total_updates example_rows \<and>
   high_impact example_rows = 1 \<and> medium_impact example_rows = 0 \<and>
   low_impact example_rows = 0 \<and> total_updates example_rows = 2"
proof -
  have "\<not> (\<forall>r\<in>set example_rows.
            row_impact_level r \<in> {Some ''High'', Some ''Medium'', Some ''Low''})"
    by (simp add: example_rows_def)
  with impact_counts_bounded [of example_rows]
  have ne: "high_impact example_rows + medium_impact example_rows + low_impact example_rows
     \<noteq> total_updates example_rows"
    by blast
  have "high_impact example_rows = 1 \<and> medium_impact example_rows = 0 \<and>
   low_impact example_rows = 0 \<and> total_updates example_rows = 2"
    by (simp add: example_rows_def high_impact_def medium_impact_def low_impact_def
          total_updates_def)
  with ne show ?thesis by blast
qed

section \<open>Claims about the renderers and the notifier\<close>

lemma html_escape_example: "html_escape ''a < b & c > d'' = ''a &lt; b &amp; c &gt; d''"
  by (simp add: html_escape_def replace_char_def)

lemma html_escape_no_angle:
  "CHR ''<'' \<notin> set (html_escape s) \<and> CHR ''>'' \<notin> set (html_escape s)"
  by (induction s) (auto simp: html_escape_def replace_char_def)

lemma html_email_item_escapes_title:
  \<open>html_email_item (''EU'', ''<script>alert(1)</script>'', ''http://a'', ''2025-01-01'', ''a < b'') ! 1 =
     ''<div class="update-title">&lt;script&gt;alert(1)&lt;/script&gt;</div>''\<close>
  by (simp add: html_email_item_def html_escape_def replace_char_def)

text \<open>
  C6. Every HTML renderer is to escape \<open>&\<close>, \<open><\<close> and \<open>>\<close> in the title, the
  summary, the significant changes and each sector name. What the code does:
  \<open>generate_dashboard\<close> escapes the summary and embeds the title as it is, so
  a title with a \<open>script\<close> element reaches the page; the sector loops of
  \<open>generate_professional_dashboard\<close> and \<open>generate_professional_html\<close> embed
  each sector name as it is.
\<close>

theorem html_renderers_embed_raw_text:
  \<open>dashboard_lines generated
     [(''EU'', ''<script>alert(1)</script>'', ''http://a'', ''2025-01-01'', ''a < b'')] =
     [''<!DOCTYPE html>'',
      ''<html lang='en'>'',
      ''<head>'',
      ''  <meta charset='utf-8'>'',
      ''  <title>Sustainability Regulation Updates</title>'',
      dashboard_style,
      ''</head>'',
      ''<body>'',
      ''  <h1>Sustainability Regulatory Updates</h1>'',
      ''  <p>Generated on '' @ generated @ ''</p>'',
      ''<h2>EU</h2>'',
      ''<table><thead><tr><th>Date</th><th>Title</th><th>Description</th></tr></thead><tbody>'',
      ''<tr><td>2025-01-01</td><td><a href='http://a' target='_blank'><script>alert(1)</script></a></td><td>a &lt; b</td></tr>'',
      ''</tbody></table>'',
      ''</body>'',
      ''</html>''] \<and>
   sector_tags ''<b>Energy</b>, Finance'' =
     ''<span class="sector-tag"><b>Energy</b></span><span class="sector-tag">Finance</span>'' \<and>
   contains ''<span class="sector-tag"><b>Energy</b></span>''
     (dashboard_sectors_block (Some ''<b>Energy</b>, Finance'')) \<and>
   contains ''<span class="sector-tag"><b>Energy</b></span>''
     (email_sectors_block (Some ''<b>Energy</b>, Finance''))\<close>
proof -
  have a: \<open>dashboard_lines generated
     [(''EU'', ''<script>alert(1)</script>'', ''http://a'', ''2025-01-01'', ''a < b'')] =
     [''<!DOCTYPE html>'',
      ''<html lang='en'>'',
      ''<head>'',
      ''  <meta charset='utf-8'>'',
      ''  <title>Sustainability Regulation Updates</title>'',
      dashboard_style,
      ''</head>'',
      ''<body>'',
      ''  <h1>Sustainability Regulatory Updates</h1>'',
      ''  <p>Generated on '' @ generated @ ''</p>'',
      ''<h2>EU</h2>'',
      ''<table><thead><tr><th>Date</th><th>Title</th><th>Description</th></tr></thead><tbody>'',
      ''<tr><td>2025-01-01</td><td><a href='http://a' target='_blank'><script>alert(1)</script></a></td><td>a &lt; b</td></tr>'',
      ''</tbody></table>'',
      ''</body>'',
      ''</html>'']\<close>
    by (simp add: dashboard_lines_def html_escape_def replace_char_def)
  have b: \<open>sector_tags ''<b>Energy</b>, Finance'' =
     ''<span class="sector-tag"><b>Energy</b></span><span class="sector-tag">Finance</span>''\<close>
    by code_simp
  have c: \<open>contains ''<span class="sector-tag"><b>Energy</b></span>''
     (dashboard_sectors_block (Some ''<b>Energy</b>, Finance''))\<close>
    by code_simp
  have d: \<open>contains ''<span class="sector-tag"><b>Energy</b></span>''
     (email_sectors_block (Some ''<b>Energy</b>, Finance''))\<close>
    by code_simp
  from a b c d show ?thesis by blast
qed

text \<open>
  C7, as stated: for the empty record sequence each renderer returns a report
  with a "no updates" indicator. It fails: at a fixed clock reading neither the
  plain-text digest nor the HTML dashboard for no rows contains such a phrase.
\<close>

theorem empty_report_has_no_indicator:
  "\<not> has_no_updates_indicator
       (generate_plain_text_email ''January 01, 2025 at 00:00 UTC'' []) \<and>
   \<not> has_no_updates_indicator (generate_dashboard ''2025-01-01 00:00 UTC'' [])"
proof -
  have a: "\<not> has_no_updates_indicator
       (generate_plain_text_email ''January 01, 2025 at 00:00 UTC'' [])"
    by (simp add: has_no_updates_indicator_def no_updates_phrases_def
          generate_plain_text_email_def plain_text_lines_def eval_nat_numeral)
  have b: "\<not> has_no_updates_indicator (generate_dashboard ''2025-01-01 00:00 UTC'' [])"
    by (simp add: has_no_updates_indicator_def no_updates_phrases_def
          generate_dashboard_def dashboard_lines_def dashboard_style_def)
  from a b show ?thesis by (rule conjI)
qed

lemma join_lines_nonempty: "l \<noteq> [] \<Longrightarrow> join_lines (l # ls) \<noteq> []"
  by (cases ls) simp_all

text \<open>
  C7, amended: for the empty record sequence each renderer returns, without
  raising, a report that is not empty and consists of its fixed frame alone:
  banner, title, banner, the line \<open>Generated: ...\<close>, an empty line and the
  closing banner around \<open>End of Report\<close> for the plain-text digest; the
  document skeleton with the heading and the paragraph \<open>Generated on ...\<close>,
  and no table, for the HTML dashboard. The frame (the report with the clock
  reading left out) contains no "no updates" indicator.
\<close>

theorem empty_report_is_frame:
  "plain_text_lines generated [] =
     [replicate 80 (CHR ''=''),
      ''SUSTAINABILITY REGULATORY UPDATES'',
      replicate 80 (CHR ''=''),
      ''Generated: '' @ generated,
      [],
      replicate 80 (CHR ''=''),
      ''End of Report'',
      replicate 80 (CHR ''='')] \<and>
   generate_plain_text_email generated [] \<noteq> [] \<and>
   dashboard_lines generated [] =
     [''<!DOCTYPE html>'',
      ''<html lang='en'>'',
      ''<head>'',
      ''  <meta charset='utf-8'>'',
      ''  <title>Sustainability Regulation Updates</title>'',
      dashboard_style,
      ''</head>'',
      ''<body>'',
      ''  <h1>Sustainability Regulatory Updates</h1>'',
      ''  <p>Generated on '' @ generated @ ''</p>'',
      ''</body>'',
      ''</html>''] \<and>
   generate_dashboard generated [] \<noteq> [] \<and>
   \<not> has_no_updates_indicator (generate_plain_text_email [] []) \<and>
   \<not> has_no_updates_indicator (generate_dashboard [] [])"
proof -
  have p: "plain_text_lines generated [] =
     [replicate 80 (CHR ''=''),
      ''SUSTAINABILITY REGULATORY UPDATES'',
      replicate 80 (CHR ''=''),
      ''Generated: '' @ generated,
      [],
      replicate 80 (CHR ''=''),
      ''End of Report'',
      replicate 80 (CHR ''='')]"
    by (simp add: plain_text_lines_def)
  have d: "dashboard_lines generated [] =
     [''<!DOCTYPE html>'',
      ''<html lang='en'>'',
      ''<head>'',
      ''  <meta charset='utf-8'>'',
      ''  <title>Sustainability Regulation Updates</title>'',
      dashboard_style,
      ''</head>'',
      ''<body>'',
      ''  <h1>Sustainability Regulatory Updates</h1>'',
      ''  <p>Generated on '' @ generated @ ''</p>'',
      ''</body>'',
      ''</html>'']"
    by (simp add: dashboard_lines_def)
  have pn: "generate_plain_text_email generated [] \<noteq> []"
    unfolding generate_plain_text_email_def p
    by (rule join_lines_nonempty) (simp add: replicate_empty)
  have dn: "generate_dashboard generated [] \<noteq> []"
    unfolding generate_dashboard_def d
    by (rule join_lines_nonempty) simp
  have pf: "\<not> has_no_updates_indicator (generate_plain_text_email [] [])"
    by (simp add: has_no_updates_indicator_def no_updates_phrases_def
          generate_plain_text_email_def plain_text_lines_def eval_nat_numeral)
  have df: "\<not> has_no_updates_indicator (generate_dashboard [] [])"
    by (simp add: has_no_updates_indicator_def no_updates_phrases_def
          generate_dashboard_def dashboard_lines_def dashboard_style_def)
  from p pn d dn pf df show ?thesis by blast
qed

text \<open>
  C8. \<open>send_email\<close> is to return without raising whenever a required credential
  is absent. What the code does: \<open>int(os.environ.get("SMTP_PORT", "0"))\<close> is
  evaluated before the credentials are checked and outside the \<open>try\<close>, so
  when \<open>SMTP_PORT\<close> is set to text that is not a number (the empty string,
  \<open>abc\<close>) the function raises \<open>ValueError\<close>, whatever else is set or absent.
\<close>

theorem send_email_raises_on_bad_port:
  "send_email unicode_decimal [''SMTP_PORT'' \<mapsto> ''''] smtp message =
     Inl (ValueError ''invalid literal for int() with base 10'') \<and>
   send_email unicode_decimal [''SMTP_PORT'' \<mapsto> ''abc''] smtp message =
     Inl (ValueError ''invalid literal for int() with base 10'') \<and>
   send_email unicode_decimal
     [''SMTP_HOST'' \<mapsto> ''smtp.example.com'', ''SMTP_PORT'' \<mapsto> ''smtp'',
      ''SMTP_USER'' \<mapsto> ''u'', ''SMTP_PASSWORD'' \<mapsto> ''p''] smtp message =
     Inl (ValueError ''invalid literal for int() with base 10'')"
proof -
  have e: "py_int unicode_decimal '''' = None"
    by (simp add: py_int_def strip_code_points_def code_points_def)
  have a: "py_int unicode_decimal ''abc'' = None"
    by (simp add: py_int_def strip_code_points_def code_points_def is_space_def
          whitespace_code_points_def decimal_digit_def is_digit_def)
  have s: "py_int unicode_decimal ''smtp'' = None"
    by (simp add: py_int_def strip_code_points_def code_points_def is_space_def
          whitespace_code_points_def decimal_digit_def is_digit_def)
  show ?thesis by (simp add: send_email_def e a s)
qed

lemma send_email_skips_when_incomplete:
  assumes "py_int unicode_decimal
             (case environ ''SMTP_PORT'' of None \<Rightarrow> ''0'' | Some v \<Rightarrow> v) = Some port"
    and "\<not> (truthy (environ ''SMTP_HOST'') \<and> port \<noteq> 0 \<and> truthy (environ ''SMTP_USER'') \<and>
            truthy (environ ''SMTP_PASSWORD'') \<and> truthy (environ ''SMTP_TO''))"
  shows "send_email unicode_decimal environ smtp message =
     Inr \<lparr>attempted = None,
          printed = [''SMTP credentials not fully configured; skipping email send.'']\<rparr>"
  using assms by (simp add: send_email_def Let_def)

lemma py_int_0: "py_int unicode_decimal ''0'' = Some 0"
  by (simp add: py_int_def strip_code_points_def code_points_def is_space_def
        whitespace_code_points_def decimal_digit_def is_digit_def digit_value_def)

lemma py_int_examples:
  "py_int unicode_decimal '' 587 '' = Some 587"
  "py_int unicode_decimal ''-1_000'' = Some (- 1000)"
  "py_int unicode_decimal ''1__0'' = None"
  "py_int unicode_decimal ''5_'' = None"
  by (simp_all add: py_int_def strip_code_points_def code_points_def is_space_def
        whitespace_code_points_def decimal_digit_def is_digit_def digit_value_def)

lemma py_int_unicode_digits:
  "py_int (\<lambda>cp. if cp = [CHR 0xD9, CHR 0xA5] then Some 5
                 else if cp = [CHR 0xD9, CHR 0xA8] then Some 8 else None)
     [CHR 0xD9, CHR 0xA5, CHR 0xD9, CHR 0xA8, CHR ''7''] = Some 587"
  by (simp add: py_int_def strip_code_points_def code_points_def is_space_def
        whitespace_code_points_def decimal_digit_def is_digit_def digit_value_def)

lemma send_email_skips_without_port:
  "environ ''SMTP_PORT'' = None \<Longrightarrow>
   send_email unicode_decimal environ smtp message =
     Inr \<lparr>attempted = None,
          printed = [''SMTP credentials not fully configured; skipping email send.'']\<rparr>"
  by (rule send_email_skips_when_incomplete [where port = 0]) (simp_all add: py_int_0)

lemma send_email_catches_transport_failure:
  assumes "py_int unicode_decimal
             (case environ ''SMTP_PORT'' of None \<Rightarrow> ''0'' | Some v \<Rightarrow> v) = Some port"
    and "truthy (environ ''SMTP_HOST'') \<and> port \<noteq> 0 \<and> truthy (environ ''SMTP_USER'') \<and>
         truthy (environ ''SMTP_PASSWORD'') \<and> truthy (environ ''SMTP_TO'')"
    and "\<And>session. smtp session = Some e" and "is_Exception e"
  shows "\<exists>session. send_email unicode_decimal environ smtp message =
     Inr \<lparr>attempted = Some session,
          printed = [''Failed to send email: '' @ exception_str e]\<rparr>"
  using assms by (simp add: send_email_def Let_def)

section \<open>Checks of the string operations\<close>

lemma lower_char_ascii:
  "lower_char c =
     (let n = (of_char c :: nat) in if 65 \<le> n \<and> n \<le> 90 then char_of (n + 32) else c)"
  by (cases c) (auto simp: Let_def char_of_def bit_0)

lemma lower_char_examples: "map lower_char ''@AMZ[`amz{ 09'' = ''@amz[`amz{ 09''"
  by simp

lemma indicator_example: "has_no_updates_indicator ''No new updates were detected today.''"
  by (simp add: has_no_updates_indicator_def no_updates_phrases_def)

text \<open>
  A word with the two-byte letter U+00E9 has five code points; the no-break
  space U+00A0 separates words and is stripped.
\<close>

lemma py_len_example:
  "py_len [CHR ''c'', CHR ''a'', CHR ''f'', CHR 0xC3, CHR 0xA9, CHR ''s''] = 5"
  by (simp add: py_len_def code_points_def)

lemma py_split_example:
  "py_split [CHR '' '', CHR ''a'', CHR 0xC2, CHR 0xA0, CHR 0xC3, CHR 0xA9, CHR ''b'',
             CHR 0x09, CHR 0x0A, CHR ''c''] =
     [''a'', [CHR 0xC3, CHR 0xA9, CHR ''b''], ''c'']"
  by (simp add: py_split_def code_points_def is_space_def whitespace_code_points_def)

lemma py_strip_example:
  "py_strip [CHR 0xC2, CHR 0xA0, CHR '' '', CHR ''a'', CHR '' '', CHR ''b'',
             CHR 0xE3, CHR 0x80, CHR 0x80] = ''a b''"
  by (simp add: py_strip_def strip_code_points_def code_points_def is_space_def
        whitespace_code_points_def)

end
